theory Spec2Isabelle
  imports Complex_Main
begin

section \<open>Values of the Python runtime\<close>

text \<open>
  Exceptions are values. \<open>KeyError k\<close> carries the missing key, so that the place where a
  lookup fails can be told apart; \<open>Fault\<close> stands for any fault raised by a collaborator
  outside the repository (the HTTP client, the JSON decoder).
\<close>

datatype error = KeyError string | ValueError | TypeError | Fault string

text \<open>
  A decoded JSON document (\<open>await response.json()\<close>). An object is an association list
  holding each key once, in document order. Floats are modelled by the real they denote;
  no property below depends on float arithmetic.
\<close>

datatype json =
    JNull
  | JBool bool
  | JInt int
  | JFloat real
  | JStr string
  | JList "json list"
  | JDict "(string \<times> json) list"

text \<open>Python truth value testing, as used by \<open>if response.status == 200 and response_data\<close>.\<close>

fun truthy :: "json \<Rightarrow> bool" where
  "truthy JNull = False"
| "truthy (JBool b) = b"
| "truthy (JInt n) = (n \<noteq> 0)"
| "truthy (JFloat r) = (r \<noteq> 0)"
| "truthy (JStr s) = (s \<noteq> [])"
| "truthy (JList xs) = (xs \<noteq> [])"
| "truthy (JDict kvs) = (kvs \<noteq> [])"

text \<open>Sequencing of fallible steps: the first exception ends the computation.\<close>

fun bind_res :: "error + 'a \<Rightarrow> ('a \<Rightarrow> error + 'b) \<Rightarrow> error + 'b" where
  "bind_res (Inl e) f = Inl e"
| "bind_res (Inr x) f = f x"

text \<open>\<open>entry[key]\<close> on a dict: KeyError on a missing key.\<close>

definition getitem :: "(string \<times> json) list \<Rightarrow> string \<Rightarrow> error + json" where
  "getitem entry k = (case map_of entry k of None \<Rightarrow> Inl (KeyError k) | Some v \<Rightarrow> Inr v)"

text \<open>\<open>s[a:b]\<close> for \<open>0 \<le> a \<le> b\<close> on a string.\<close>

definition slice :: "string \<Rightarrow> nat \<Rightarrow> nat \<Rightarrow> string" where
  "slice s a b = take (b - a) (drop a s)"

text \<open>\<open>for entry in response_data\<close>: the sequence a JSON value iterates over.\<close>

fun iterate :: "json \<Rightarrow> error + json list" where
  "iterate (JList xs) = Inr xs"
| "iterate (JDict kvs) = Inr (map (\<lambda>kv. JStr (fst kv)) kvs)"
| "iterate (JStr s) = Inr (map (\<lambda>c. JStr [c]) s)"
| "iterate _ = Inl TypeError"

subsection \<open>datetime\<close>

record datetime =
  year :: int
  month :: int
  day :: int
  hour :: int
  minute :: int
  second :: int

definition is_leap :: "int \<Rightarrow> bool" where
  "is_leap y = (y mod 4 = 0 \<and> (y mod 100 \<noteq> 0 \<or> y mod 400 = 0))"

definition days_in_month :: "int \<Rightarrow> int \<Rightarrow> int" where
  "days_in_month y m =
     (if m = 2 then (if is_leap y then 29 else 28)
      else if m = 4 \<or> m = 6 \<or> m = 9 \<or> m = 11 then 30 else 31)"

text \<open>The constructor \<open>datetime(year=, month=, day=, hour=, minute=, second=)\<close>: ValueError
  on a component out of range.\<close>

definition mk_datetime :: "int \<Rightarrow> int \<Rightarrow> int \<Rightarrow> int \<Rightarrow> int \<Rightarrow> int \<Rightarrow> error + datetime" where
  "mk_datetime y mo d h mi s =
     (if 1 \<le> y \<and> y \<le> 9999 \<and> 1 \<le> mo \<and> mo \<le> 12 \<and> 1 \<le> d \<and> d \<le> days_in_month y mo
         \<and> 0 \<le> h \<and> h \<le> 23 \<and> 0 \<le> mi \<and> mi \<le> 59 \<and> 0 \<le> s \<and> s \<le> 59
      then Inr \<lparr>year = y, month = mo, day = d, hour = h, minute = mi, second = s\<rparr>
      else Inl ValueError)"

section \<open>The relational entities of \<open>app/interaction.py\<close>\<close>

text \<open>
  A \<open>Beatmap\<close> object as \<open>_save_response\<close> builds it. The first eight attributes are passed
  through from the response entry unconverted; the columns filled by the database
  (\<open>updated_at\<close>, \<open>server_id\<close>) are not attributes the code sets.
\<close>

record Beatmap =
  md5 :: json
  beatmap_id :: json
  set_id :: json
  ranked_status :: json
  artist :: json
  title :: json
  version :: json
  creator :: json
  filename :: string
  total_length :: int
  beatmap_max_combo :: int
  beatmap_mode :: int
  bpm :: real
  cs :: real
  ar :: real
  od :: real
  hp :: real
  star_rating :: real
  server_updated_at :: datetime

record Score =
  user_id :: int
  beatmap_md5 :: string
  score :: int
  performance_points :: real
  accuracy :: real
  highest_combo :: int
  full_combo :: bool
  mods :: int
  num_300s :: int
  num_100s :: int
  num_50s :: int
  num_misses :: int
  num_gekis :: int
  num_katus :: int
  grade :: string
  score_mode :: int
  stage_id :: int

text \<open>
  The durable store: the rows of the two tables the code below writes, in the order
  they were added, and the number of database sessions opened so far.
\<close>

record world =
  beatmaps :: "Beatmap list"
  scores :: "Score list"
  sessions_created :: nat

text \<open>\<open>async_session_maker()\<close> and \<open>database_session()\<close> open a session on the store.\<close>

definition async_session_maker :: "world \<Rightarrow> world" where
  "async_session_maker w = w\<lparr>sessions_created := Suc (sessions_created w)\<rparr>"

definition database_session :: "world \<Rightarrow> world" where
  "database_session w = w\<lparr>sessions_created := Suc (sessions_created w)\<rparr>"

text \<open>
  Modelled from the spec: the module \<open>app.database\<close> is not among the sources. The spec's
  operation body "persists the freshly fetched result" in "a local durable store":
  \<open>add_model\<close> stores the row and returns it.
\<close>

definition add_model_beatmap :: "world \<Rightarrow> Beatmap \<Rightarrow> Beatmap \<times> world" where
  "add_model_beatmap w b = (b, w\<lparr>beatmaps := beatmaps w @ [b]\<rparr>)"

definition add_model_score :: "world \<Rightarrow> Score \<Rightarrow> Score \<times> world" where
  "add_model_score w s = (s, w\<lparr>scores := scores w @ [s]\<rparr>)"

section \<open>What the code takes from outside\<close>

text \<open>The query parameters \<open>params\<close>: a dict with at most the keys \<open>md5\<close>, \<open>id\<close> and \<open>k\<close>.\<close>

record params =
  p_md5 :: "string option"
  p_id :: "int option"
  p_k :: "string option"

text \<open>The values of the mapping handed to the condition evaluator.\<close>

datatype pynum = PyInt int | PyFloat real

text \<open>
  Everything the two source files use and do not define is a parameter:
  \<^item> \<open>MD5_PATTERN_match s\<close>: \<open>definition.MD5_PATTERN.match(s)\<close> is not None;
  \<^item> \<open>isnumeric\<close>, \<open>py_int\<close>, \<open>py_float\<close>, \<open>py_str\<close>: \<open>str.isnumeric\<close>, \<open>int()\<close>, \<open>float()\<close>
    and \<open>str()\<close> of the runtime;
  \<^item> \<open>IGNORED_BEATMAP_CHARS\<close>: the translation table of \<open>app.definition\<close>
    (\<open>Some r\<close>: the character is replaced by \<open>r\<close>);
  \<^item> \<open>osu_api_v1_key\<close>: \<open>config.osu_api_v1_key\<close>;
  \<^item> \<open>http_get url params\<close>: the remote provider's response to the request, as its status
    and what \<open>response.json()\<close> gives for it (the decoded body, or the exception of the
    decoder when the body is not JSON), or the fault the client raises;
  \<^item> \<open>from_ident\<close>: \<open>Beatmap.from_ident\<close>, the lookup in the local store;
  \<^item> \<open>select_model w n\<close>: \<open>database.select_model(session, Beatmap, Beatmap.id == n)\<close>, and
    \<open>get_model w k\<close>: \<open>database.get_model(session, k, Beatmap)\<close>; how the database
    compares the stored column values with a key is not in the sources;
  \<^item> \<open>AstChecker_check condition variables\<close>: \<open>AstChecker(condition).check(variables)\<close>.
  The lookups and the evaluator may raise: they return an exception or a value.
\<close>

record env =
  MD5_PATTERN_match :: "string \<Rightarrow> bool"
  isnumeric :: "string \<Rightarrow> bool"
  py_int :: "json \<Rightarrow> error + int"
  py_float :: "json \<Rightarrow> error + real"
  py_str :: "json \<Rightarrow> string"
  IGNORED_BEATMAP_CHARS :: "char \<Rightarrow> string option"
  osu_api_v1_key :: string
  http_get :: "string \<Rightarrow> params \<Rightarrow> error + (int \<times> (error + json))"
  from_ident :: "world \<Rightarrow> string \<Rightarrow> error + Beatmap option"
  select_model :: "world \<Rightarrow> int \<Rightarrow> error + Beatmap option"
  get_model :: "world \<Rightarrow> string \<Rightarrow> error + Beatmap option"
  AstChecker_check :: "string \<Rightarrow> (string \<Rightarrow> pynum option) \<Rightarrow> error + bool"

section \<open>\<open>Beatmap.from_id\<close> and \<open>Beatmap.from_md5\<close>\<close>

definition from_id :: "env \<Rightarrow> world \<Rightarrow> int \<Rightarrow> error + Beatmap option" where
  "from_id E session bid = select_model E session bid"

definition from_md5 :: "env \<Rightarrow> world \<Rightarrow> string \<Rightarrow> error + Beatmap option" where
  "from_md5 E session m = get_model E session m"

section \<open>\<open>Beatmap._save_response\<close>\<close>

text \<open>
  \<open>"{artist} - {title} ({creator}) [{version}].osu".format(**entry)\<close>: the fields are
  looked up in the order of the format string, each rendered by \<open>str()\<close>.
\<close>

definition format_filename :: "env \<Rightarrow> (string \<times> json) list \<Rightarrow> error + string" where
  "format_filename E entry =
     bind_res (getitem entry ''artist'') (\<lambda>a.
     bind_res (getitem entry ''title'') (\<lambda>t.
     bind_res (getitem entry ''creator'') (\<lambda>c.
     bind_res (getitem entry ''version'') (\<lambda>v.
       Inr (py_str E a @ '' - '' @ py_str E t @ '' ('' @ py_str E c @ '') [''
              @ py_str E v @ ''].osu'')))))"

text \<open>\<open>str.translate(definition.IGNORED_BEATMAP_CHARS)\<close>.\<close>

definition translate :: "env \<Rightarrow> string \<Rightarrow> string" where
  "translate E s =
     concat (map (\<lambda>c. case IGNORED_BEATMAP_CHARS E c of None \<Rightarrow> [c] | Some r \<Rightarrow> r) s)"

text \<open>
  The six slices of \<open>entry["last_update"]\<close>, converted in the order of the keyword
  arguments. A value that is not a string ends in TypeError: null and numbers cannot
  be subscripted, a list is sliced and then refused by \<open>int()\<close>, a dict refuses the slice.
\<close>

definition parse_last_update :: "env \<Rightarrow> json \<Rightarrow> error + datetime" where
  "parse_last_update E lu =
     (case lu of
        JStr s \<Rightarrow>
          bind_res (py_int E (JStr (slice s 0 4))) (\<lambda>y.
          bind_res (py_int E (JStr (slice s 5 7))) (\<lambda>mo.
          bind_res (py_int E (JStr (slice s 8 10))) (\<lambda>d.
          bind_res (py_int E (JStr (slice s 11 13))) (\<lambda>h.
          bind_res (py_int E (JStr (slice s 14 16))) (\<lambda>mi.
          bind_res (py_int E (JStr (slice s 17 19))) (\<lambda>se.
            mk_datetime y mo d h mi se))))))
      | _ \<Rightarrow> Inl TypeError)"

text \<open>
  The body of the loop up to the \<open>Beatmap(...)\<close> constructor: every lookup and conversion
  in the order the interpreter evaluates them. \<open>**entry\<close> needs a dict.
\<close>

definition beatmap_of_entry :: "env \<Rightarrow> json \<Rightarrow> error + Beatmap" where
  "beatmap_of_entry E e =
     (case e of
        JDict entry \<Rightarrow>
          bind_res (format_filename E entry) (\<lambda>fmt.
          let fname = translate E fmt in
          bind_res (getitem entry ''last_update'') (\<lambda>lu.
          bind_res (parse_last_update E lu) (\<lambda>last_update.
          bind_res (getitem entry ''file_md5'') (\<lambda>v_md5.
          bind_res (getitem entry ''beatmap_id'') (\<lambda>v_id.
          bind_res (getitem entry ''beatmapset_id'') (\<lambda>v_set.
          bind_res (getitem entry ''approved'') (\<lambda>v_appr.
          bind_res (getitem entry ''artist'') (\<lambda>v_artist.
          bind_res (getitem entry ''title'') (\<lambda>v_title.
          bind_res (getitem entry ''version'') (\<lambda>v_version.
          bind_res (getitem entry ''creator'') (\<lambda>v_creator.
          bind_res (bind_res (getitem entry ''total_length'') (py_int E)) (\<lambda>v_len.
          bind_res (bind_res (getitem entry ''max_combo'') (py_int E)) (\<lambda>v_combo.
          bind_res (bind_res (getitem entry ''mode'') (py_int E)) (\<lambda>v_mode.
          bind_res (bind_res (getitem entry ''bpm'')
                      (\<lambda>b. py_float E (if b \<noteq> JNull then b else JInt 0))) (\<lambda>v_bpm.
          bind_res (bind_res (getitem entry ''diff_size'') (py_float E)) (\<lambda>v_cs.
          bind_res (bind_res (getitem entry ''diff_overall'') (py_float E)) (\<lambda>v_od.
          bind_res (bind_res (getitem entry ''diff_approach'') (py_float E)) (\<lambda>v_ar.
          bind_res (bind_res (getitem entry ''diff_drain'') (py_float E)) (\<lambda>v_hp.
          bind_res (bind_res (getitem entry ''difficultyrating'') (py_float E)) (\<lambda>v_sr.
            Inr \<lparr>md5 = v_md5, beatmap_id = v_id, set_id = v_set, ranked_status = v_appr,
                 artist = v_artist, title = v_title, version = v_version,
                 creator = v_creator, filename = fname, total_length = v_len,
                 beatmap_max_combo = v_combo, beatmap_mode = v_mode, bpm = v_bpm,
                 cs = v_cs, ar = v_ar, od = v_od, hp = v_hp, star_rating = v_sr,
                 server_updated_at = last_update\<rparr>))))))))))))))))))))
      | _ \<Rightarrow> Inl TypeError)"

text \<open>
  The loop. An entry that raises ends it; the rows added before stay in the store, so
  the store is returned with the exception.
\<close>

fun save_entries :: "env \<Rightarrow> world \<Rightarrow> json list \<Rightarrow> (error + unit) \<times> world" where
  "save_entries E w [] = (Inr (), w)"
| "save_entries E w (e # es) =
     (case beatmap_of_entry E e of
        Inl err \<Rightarrow> (Inl err, w)
      | Inr b \<Rightarrow> save_entries E (snd (add_model_beatmap w b)) es)"

definition save_response :: "env \<Rightarrow> world \<Rightarrow> json \<Rightarrow> (error + unit) \<times> world" where
  "save_response E w response_data =
     (case iterate response_data of
        Inl err \<Rightarrow> (Inl err, w)
      | Inr es \<Rightarrow> save_entries E w es)"

section \<open>\<open>Beatmap.request_api\<close>\<close>

text \<open>Lines 120 to 125: the parameters built from \<open>ident\<close>; \<open>int(ident)\<close> may raise.\<close>

definition ident_params :: "env \<Rightarrow> string \<Rightarrow> error + params" where
  "ident_params E ident =
     (let p0 = \<lparr>p_md5 = None, p_id = None, p_k = None\<rparr>;
          p1 = (if MD5_PATTERN_match E ident then p0\<lparr>p_md5 := Some ident\<rparr> else p0)
      in if isnumeric E ident
         then bind_res (py_int E (JStr ident)) (\<lambda>n. Inr (p1\<lparr>p_id := Some n\<rparr>))
         else Inr p1)"

text \<open>Lines 129 to 133: the endpoint and the key parameter.\<close>

definition endpoint :: "env \<Rightarrow> params \<Rightarrow> string \<times> params" where
  "endpoint E p =
     (if osu_api_v1_key E \<noteq> []
      then (''https://old.ppy.sh/api/get_beatmaps'', p\<lparr>p_k := Some (osu_api_v1_key E)\<rparr>)
      else (''https://osu.direct/api/get_beatmaps'', p))"

text \<open>
  Lines 137 to 143, after the response has arrived. \<open>params['id']\<close> and \<open>params['md5']\<close>
  are subscriptions: a key that was never set raises KeyError. Falling off the end
  returns None.
\<close>

definition handle_response ::
  "env \<Rightarrow> params \<Rightarrow> int \<Rightarrow> json \<Rightarrow> world \<Rightarrow> (error + Beatmap option) \<times> world" where
  "handle_response E p status response_data w =
     (if status = 200 \<and> truthy response_data then
        let session = async_session_maker w in
        (case save_response E session response_data of
           (Inl err, w') \<Rightarrow> (Inl err, w')
         | (Inr u, w') \<Rightarrow>
             (case p_id p of
                None \<Rightarrow> (Inl (KeyError ''id''), w')
              | Some i \<Rightarrow>
                  if i \<noteq> 0 then (from_id E w' i, w')
                  else (case p_md5 p of
                          None \<Rightarrow> (Inl (KeyError ''md5''), w')
                        | Some m \<Rightarrow>
                            if m \<noteq> [] then (from_md5 E w' m, w')
                            else (Inr None, w'))))
      else (Inr None, w))"

text \<open>
  Lines 120 to 135: the request that is sent for \<open>ident\<close> and the response to it, with the
  parameters kept for the lookups that follow. It raises when \<open>int(ident)\<close> does, or when
  the HTTP client does.
\<close>

definition get_response :: "env \<Rightarrow> string \<Rightarrow> error + (params \<times> int \<times> (error + json))" where
  "get_response E ident =
     bind_res (ident_params E ident) (\<lambda>p0.
       case endpoint E p0 of
         (url, p) \<Rightarrow>
           bind_res (http_get E url p) (\<lambda>r. Inr (p, fst r, snd r)))"

text \<open>
  Line 136: \<open>response_data = await response.json()\<close> comes before the status is looked at,
  so a body that does not decode raises whatever the status is.
\<close>

definition send_request :: "env \<Rightarrow> string \<Rightarrow> error + (params \<times> int \<times> json)" where
  "send_request E ident =
     bind_res (get_response E ident) (\<lambda>r.
       case r of
         (p, status, decoded) \<Rightarrow>
           bind_res decoded (\<lambda>response_data. Inr (p, status, response_data)))"

definition request_api :: "env \<Rightarrow> string \<Rightarrow> world \<Rightarrow> (error + Beatmap option) \<times> world" where
  "request_api E ident w =
     (case send_request E ident of
        Inl err \<Rightarrow> (Inl err, w)
      | Inr (p, status, response_data) \<Rightarrow> handle_response E p status response_data w)"

section \<open>\<open>Score.submit_raw\<close>\<close>

definition variables :: "Score \<Rightarrow> string \<Rightarrow> pynum option" where
  "variables self =
     [''acc'' \<mapsto> PyFloat (accuracy self),
      ''max_combo'' \<mapsto> PyInt (highest_combo self),
      ''mods'' \<mapsto> PyInt (mods self),
      ''score'' \<mapsto> PyInt (score self)]"

definition submit_raw ::
  "env \<Rightarrow> Score \<Rightarrow> world \<Rightarrow> string \<Rightarrow> (error + Score option) \<times> world" where
  "submit_raw E self session condition =
     (case AstChecker_check E condition (variables self) of
        Inl err \<Rightarrow> (Inl err, session)
      | Inr ok \<Rightarrow>
          if ok then (case add_model_score session self of (s, w') \<Rightarrow> (Inr (Some s), w'))
          else (Inr None, session))"

section \<open>\<open>BeatmapRequestOperator.operate\<close>\<close>

record ModelResponse =
  "identifier" :: string
  status :: string
  data :: "Beatmap option"

text \<open>The two attributes of an \<open>Operator\<close> that the sources show.\<close>

record Operator =
  interval :: int
  skip_next_interval :: bool

text \<open>
  The result is the response or the exception that leaves \<open>operate\<close> (it has no handler),
  with the operator and the store as the call leaves them.
\<close>

definition operate ::
  "env \<Rightarrow> Operator \<Rightarrow> string \<Rightarrow> string \<Rightarrow> world \<Rightarrow> (error + ModelResponse) \<times> Operator \<times> world" where
  "operate E self session args w =
     (let db_session = database_session w in
      case from_ident E db_session args of
        Inl err \<Rightarrow> (Inl err, self, db_session)
      | Inr beatmap \<Rightarrow>
          let self' = (if beatmap \<noteq> None then self\<lparr>skip_next_interval := True\<rparr> else self)
          in case (if beatmap = None then request_api E args db_session
                   else (Inr beatmap, db_session)) of
               (Inl err, w') \<Rightarrow> (Inl err, self', w')
             | (Inr None, w') \<Rightarrow>
                 (Inr \<lparr>identifier = args, status = ''failure'', data = None\<rparr>, self', w')
             | (Inr (Some b), w') \<Rightarrow>
                 (Inr \<lparr>identifier = args, status = ''success'', data = Some b\<rparr>, self', w'))"

section \<open>\<open>stream_beatmap\<close>\<close>

record User =
  user_ident :: int
  username :: string

text \<open>\<open>str()\<close> of an integer: its decimal digits (\<open>digit_char\<close> is only applied below 10).\<close>

definition digit_char :: "nat \<Rightarrow> char" where
  "digit_char d = ''0123456789'' ! d"

fun str_nat :: "nat \<Rightarrow> string" where
  "str_nat n = (if n < 10 then [digit_char n] else str_nat (n div 10) @ [digit_char (n mod 10)])"

declare str_nat.simps [simp del]

definition str_int :: "int \<Rightarrow> string" where
  "str_int i = (if i < 0 then CHR ''-'' # str_nat (nat (- i)) else str_nat (nat i))"

text \<open>
  The handler works on an operator it does not define: \<open>new_operation\<close> and
  \<open>event_generator\<close> are parameters, acting on the operator's state \<open>'b\<close>. The loop
  \<open>for ident in idents\<close> is the recursion.
\<close>

fun submit_each :: "(string \<Rightarrow> string \<Rightarrow> 'b \<Rightarrow> 'b) \<Rightarrow> string \<Rightarrow> string list \<Rightarrow> 'b \<Rightarrow> 'b" where
  "submit_each new_operation session [] B = B"
| "submit_each new_operation session (ident # idents) B =
     submit_each new_operation session idents (new_operation session ident B)"

definition stream_beatmap ::
  "(string \<Rightarrow> string \<Rightarrow> 'b \<Rightarrow> 'b) \<Rightarrow> (string \<Rightarrow> 'b \<Rightarrow> 'r) \<Rightarrow> User \<Rightarrow> string list \<Rightarrow> 'b \<Rightarrow> 'r" where
  "stream_beatmap new_operation event_generator user idents B =
     event_generator (str_int (user_ident user))
       (submit_each new_operation (str_int (user_ident user)) idents B)"

text \<open>The calls the handler makes on the operator, for stating their number and order.\<close>

datatype call = NewOperation string string | EventGenerator string

definition log_new_operation :: "string \<Rightarrow> string \<Rightarrow> call list \<Rightarrow> call list" where
  "log_new_operation session ident calls = calls @ [NewOperation session ident]"

definition log_event_generator :: "string \<Rightarrow> call list \<Rightarrow> call list" where
  "log_event_generator session calls = calls @ [EventGenerator session]"

section \<open>The broker\<close>

text \<open>
  Modelled from the spec: the class \<open>Operator\<close> of \<open>app.definition\<close> (\<open>new_operation\<close>,
  \<open>event_generator\<close>, the throttle and in-flight bookkeeping) is not among the sources.
  The definitions of this section follow the spec's data model and its admission
  algorithm (4.1), one atomic step per submission and per completion:
  \<^item> \<open>in_flight\<close>: the In-Flight Registry, a key's waiter set while it executes;
  \<^item> \<open>throttle\<close>: the Throttle Ledger, a key's \<open>lastExecutedAt\<close>;
  \<^item> \<open>retained\<close>: the most recent ResultMessage kept for a key, if the skip policy keeps any;
  \<^item> \<open>channels\<close>: the SessionChannel of each session, oldest message first;
  \<^item> \<open>executions\<close>: the invocations of \<open>run\<close> so far, as (session, key).
  A ResultMessage is the \<open>ModelResponse\<close> the operation body returns.
\<close>

record broker =
  in_flight :: "string \<Rightarrow> string set option"
  throttle :: "string \<Rightarrow> int option"
  retained :: "string \<Rightarrow> ModelResponse option"
  channels :: "string \<Rightarrow> ModelResponse list"
  executions :: "(string \<times> string) list"

definition publish :: "string \<Rightarrow> ModelResponse \<Rightarrow> broker \<Rightarrow> broker" where
  "publish session msg B = B\<lparr>channels := (channels B)(session := channels B session @ [msg])\<rparr>"

definition in_cooldown :: "int \<Rightarrow> int \<Rightarrow> string \<Rightarrow> broker \<Rightarrow> bool" where
  "in_cooldown ival now key B =
     (case throttle B key of None \<Rightarrow> False | Some lastExecutedAt \<Rightarrow> now - lastExecutedAt < ival)"

text \<open>Steps 1 to 3 of the admission algorithm, up to the start of the execution.\<close>

definition submit :: "int \<Rightarrow> int \<Rightarrow> string \<Rightarrow> string \<Rightarrow> broker \<Rightarrow> broker" where
  "submit ival now session key B =
     (case in_flight B key of
        Some waiters \<Rightarrow> B\<lparr>in_flight := (in_flight B)(key \<mapsto> insert session waiters)\<rparr>
      | None \<Rightarrow>
          if in_cooldown ival now key B then
            (case retained B key of None \<Rightarrow> B | Some msg \<Rightarrow> publish session msg B)
          else B\<lparr>in_flight := (in_flight B)(key \<mapsto> {session}),
                 executions := executions B @ [(session, key)]\<rparr>)"

text \<open>The ResultMessage of an execution: a failure of \<open>run\<close> becomes a Failure message.\<close>

definition result_message :: "string \<Rightarrow> error + ModelResponse \<Rightarrow> ModelResponse" where
  "result_message key outcome =
     (case outcome of
        Inl err \<Rightarrow> \<lparr>identifier = key, status = ''failure'', data = None\<rparr>
      | Inr msg \<Rightarrow> msg)"

text \<open>
  The rest of step 3, when the execution of \<open>key\<close> completes with \<open>outcome\<close> at time \<open>now\<close>.
  \<open>retain\<close> is the skip policy: whether the message is kept for submissions in cooldown.
\<close>

definition complete :: "bool \<Rightarrow> int \<Rightarrow> string \<Rightarrow> error + ModelResponse \<Rightarrow> broker \<Rightarrow> broker" where
  "complete retain now key outcome B =
     (case in_flight B key of
        None \<Rightarrow> B
      | Some waiters \<Rightarrow>
          let msg = result_message key outcome in
          B\<lparr>throttle := (throttle B)(key \<mapsto> now),
            retained := (if retain then (retained B)(key \<mapsto> msg) else retained B),
            channels := (\<lambda>s. if s \<in> waiters then channels B s @ [msg] else channels B s),
            in_flight := (in_flight B)(key := None)\<rparr>)"

text \<open>Submissions of one key by several sessions, each at its own time.\<close>

fun submit_all :: "int \<Rightarrow> string \<Rightarrow> (string \<times> int) list \<Rightarrow> broker \<Rightarrow> broker" where
  "submit_all ival key [] B = B"
| "submit_all ival key (sub # subs) B =
     submit_all ival key subs (submit ival (snd sub) (fst sub) key B)"

text \<open>An admitted execution with the repository's operation body as \<open>run\<close>.\<close>

definition execute ::
  "env \<Rightarrow> bool \<Rightarrow> int \<Rightarrow> string \<Rightarrow> string \<Rightarrow> Operator \<times> world \<times> broker \<Rightarrow> Operator \<times> world \<times> broker" where
  "execute E retain now session key st =
     (case st of
        (self, w, B) \<Rightarrow>
          (case operate E self session key w of
             (outcome, self', w') \<Rightarrow> (self', w', complete retain now key outcome B)))"

section \<open>A concrete environment\<close>

text \<open>
  One instance of the parameters, for evaluating the definitions on concrete inputs:
  MD5 idents are 32 lower-case hexadecimal digits, numeric strings are non-empty strings
  of decimal digits, the remote provider gives the same \<open>answer\<close> to every request, the
  database finds the first row whose column has the value of the key, and a condition
  names the variable that has to be positive (an unknown name raises).
\<close>

definition is_digit :: "char \<Rightarrow> bool" where
  "is_digit c = (c \<in> set ''0123456789'')"

definition is_hex :: "char \<Rightarrow> bool" where
  "is_hex c = (c \<in> set ''0123456789abcdef'')"

definition decimal_value :: "string \<Rightarrow> int" where
  "decimal_value s = foldl (\<lambda>a c. 10 * a + (of_char c - 48)) 0 s"

definition all_digits :: "string \<Rightarrow> bool" where
  "all_digits s = (s \<noteq> [] \<and> list_all is_digit s)"

fun example_int :: "json \<Rightarrow> error + int" where
  "example_int (JInt n) = Inr n"
| "example_int (JStr s) = (if all_digits s then Inr (decimal_value s) else Inl ValueError)"
| "example_int _ = Inl TypeError"

fun example_float :: "json \<Rightarrow> error + real" where
  "example_float (JInt n) = Inr (of_int n)"
| "example_float (JFloat r) = Inr r"
| "example_float (JStr s) =
     (if all_digits s then Inr (of_int (decimal_value s)) else Inl ValueError)"
| "example_float _ = Inl TypeError"

fun example_str :: "json \<Rightarrow> string" where
  "example_str (JStr s) = s"
| "example_str (JInt n) = str_int n"
| "example_str _ = ''None''"

definition example_check :: "string \<Rightarrow> (string \<Rightarrow> pynum option) \<Rightarrow> error + bool" where
  "example_check condition vars =
     (case vars condition of
        None \<Rightarrow> Inl (KeyError condition)
      | Some (PyInt n) \<Rightarrow> Inr (0 < n)
      | Some (PyFloat r) \<Rightarrow> Inr (0 < r))"

definition example_env ::
  "(error + int \<times> json) \<Rightarrow> (world \<Rightarrow> string \<Rightarrow> Beatmap option) \<Rightarrow> env" where
  "example_env answer lookup =
     \<lparr>MD5_PATTERN_match = (\<lambda>s. length s = 32 \<and> list_all is_hex s),
      isnumeric = all_digits,
      py_int = example_int,
      py_float = example_float,
      py_str = example_str,
      IGNORED_BEATMAP_CHARS = (\<lambda>c. if c = CHR ''/'' then Some [] else None),
      osu_api_v1_key = [],
      http_get = (\<lambda>url p. case answer of
                             Inl err \<Rightarrow> Inl err
                           | Inr r \<Rightarrow> Inr (fst r, Inr (snd r))),
      from_ident = (\<lambda>w s. Inr (lookup w s)),
      select_model = (\<lambda>w n. Inr (find (\<lambda>b. example_int (beatmap_id b) = Inr n) (beatmaps w))),
      get_model = (\<lambda>w k. Inr (find (\<lambda>b. md5 b = JStr k) (beatmaps w))),
      AstChecker_check = example_check\<rparr>"

text \<open>The same, with a provider whose body is not JSON: \<open>response.json()\<close> raises.\<close>

definition undecodable_env :: "int \<Rightarrow> env" where
  "undecodable_env st =
     (example_env (Inr (st, JNull)) (\<lambda>w s. None))
       \<lparr>http_get := (\<lambda>url p. Inr (st, Inl (Fault ''ContentTypeError'')))\<rparr>"

definition empty_world :: world where
  "empty_world = \<lparr>beatmaps = [], scores = [], sessions_created = 0\<rparr>"

definition empty_broker :: broker where
  "empty_broker =
     \<lparr>in_flight = (\<lambda>k. None), throttle = (\<lambda>k. None), retained = (\<lambda>k. None),
      channels = (\<lambda>s. []), executions = []\<rparr>"

text \<open>An entry as the remote provider sends it: every value is a string.\<close>

definition example_md5 :: string where
  "example_md5 = ''a5b99395a42bd55bc5eb1d2411cbdf8b''"

definition example_entry :: json where
  "example_entry =
     JDict [(''beatmapset_id'', JStr ''1''), (''beatmap_id'', JStr ''75''),
            (''approved'', JStr ''1''), (''total_length'', JStr ''142''),
            (''version'', JStr ''Normal''), (''file_md5'', JStr example_md5),
            (''diff_size'', JStr ''4''), (''diff_overall'', JStr ''6''),
            (''diff_approach'', JStr ''6''), (''diff_drain'', JStr ''6''),
            (''mode'', JStr ''0''), (''last_update'', JStr ''2014-05-18 15:41:48''),
            (''artist'', JStr ''Kenji Ninuma''), (''title'', JStr ''DISCO PRINCE''),
            (''creator'', JStr ''peppy''), (''bpm'', JStr ''119''),
            (''difficultyrating'', JStr ''2''), (''max_combo'', JStr ''314'')]"

definition example_score :: Score where
  "example_score =
     \<lparr>user_id = 7, beatmap_md5 = example_md5, score = 1000, performance_points = 0,
      accuracy = 1, highest_combo = 314, full_combo = True, mods = 0, num_300s = 200,
      num_100s = 0, num_50s = 0, num_misses = 0, num_gekis = 0, num_katus = 0,
      grade = ''S'', score_mode = 0, stage_id = 1\<rparr>"

definition example_beatmap :: Beatmap where
  "example_beatmap =
     \<lparr>md5 = JStr example_md5, beatmap_id = JStr ''75'', set_id = JStr ''1'',
      ranked_status = JStr ''1'', artist = JStr ''Kenji Ninuma'',
      title = JStr ''DISCO PRINCE'', version = JStr ''Normal'', creator = JStr ''peppy'',
      filename = ''Kenji Ninuma - DISCO PRINCE (peppy) [Normal].osu'',
      total_length = 142, beatmap_max_combo = 314, beatmap_mode = 0, bpm = 119,
      cs = 4, ar = 6, od = 6, hp = 6, star_rating = 2,
      server_updated_at =
        \<lparr>year = 2014, month = 5, day = 18, hour = 15, minute = 41, second = 48\<rparr>\<rparr>"

definition example_operator :: Operator where
  "example_operator = \<lparr>interval = 60, skip_next_interval = False\<rparr>"

definition failure_message :: "string \<Rightarrow> ModelResponse" where
  "failure_message key = \<lparr>identifier = key, status = ''failure'', data = None\<rparr>"

section \<open>Auxiliary facts\<close>

lemma bind_res_Inr: "bind_res r f = Inr y \<longleftrightarrow> (\<exists>x. r = Inr x \<and> f x = Inr y)"
  by (cases r) auto

text \<open>An ident that is not numeric never puts \<open>id\<close> into the parameters.\<close>

lemma send_request_not_numeric:
  assumes "\<not> isnumeric E ident" and "send_request E ident = Inr (p, st, body)"
  shows "p_id p = None"
  using assms
  by (auto simp: send_request_def get_response_def ident_params_def endpoint_def Let_def
        bind_res_Inr split: if_splits)

subsection \<open>The concrete environment at work\<close>

lemma example_send_request:
  "send_request (example_env (Inr (st, body)) lookup) ''75'' =
     Inr (\<lparr>p_md5 = None, p_id = Some 75, p_k = None\<rparr>, st, body)"
  by (simp add: send_request_def get_response_def ident_params_def endpoint_def
        example_env_def all_digits_def is_digit_def decimal_value_def)

lemma example_md5_match:
  "MD5_PATTERN_match (example_env a l) example_md5"
  by (simp add: example_env_def example_md5_def is_hex_def)

lemma example_md5_not_numeric:
  "\<not> isnumeric (example_env a l) example_md5"
  by (simp add: example_env_def example_md5_def all_digits_def is_digit_def)

lemma example_send_request_md5:
  "send_request (example_env (Inr (st, body)) lookup) example_md5 =
     Inr (\<lparr>p_md5 = Some example_md5, p_id = None, p_k = None\<rparr>, st, body)"
  by (simp add: send_request_def get_response_def ident_params_def endpoint_def
        example_env_def all_digits_def is_digit_def is_hex_def example_md5_def)

lemma example_beatmap_of_entry:
  "beatmap_of_entry (example_env a l) example_entry = Inr example_beatmap"
  by (simp add: beatmap_of_entry_def example_entry_def format_filename_def getitem_def
        example_env_def parse_last_update_def slice_def all_digits_def is_digit_def
        decimal_value_def mk_datetime_def days_in_month_def Let_def translate_def
        example_beatmap_def)

lemma example_save_response:
  "save_response (example_env a l) w (JList [example_entry]) =
     (Inr (), w\<lparr>beatmaps := beatmaps w @ [example_beatmap]\<rparr>)"
  by (simp add: save_response_def example_beatmap_of_entry add_model_beatmap_def)

lemma example_request_api_md5:
  "request_api (example_env (Inr (200, JList [example_entry])) l) example_md5 w =
     (Inl (KeyError ''id''),
      (async_session_maker w)\<lparr>beatmaps := beatmaps (async_session_maker w) @ [example_beatmap]\<rparr>)"
  by (simp add: request_api_def example_send_request_md5 handle_response_def
        example_save_response Let_def)

lemma example_operate_md5:
  "operate (example_env (Inr (200, JList [example_entry])) (\<lambda>w s. None))
       example_operator ''1'' example_md5 empty_world =
     (Inl (KeyError ''id''), example_operator,
      \<lparr>beatmaps = [example_beatmap], scores = [], sessions_created = 2\<rparr>)"
proof -
  have f: "from_ident (example_env (Inr (200, JList [example_entry])) (\<lambda>w s. None))
             = (\<lambda>w s. Inr None)"
    by (simp add: example_env_def)
  have "operate (example_env (Inr (200, JList [example_entry])) (\<lambda>w s. None))
            example_operator ''1'' example_md5 empty_world =
          (Inl (KeyError ''id''), example_operator,
           (async_session_maker (database_session empty_world))
             \<lparr>beatmaps := beatmaps (async_session_maker (database_session empty_world))
                            @ [example_beatmap]\<rparr>)"
    by (simp add: operate_def f example_request_api_md5 Let_def)
  then show ?thesis
    by (simp add: async_session_maker_def database_session_def empty_world_def)
qed

lemma example_get_response:
  "get_response (example_env (Inr (st, body)) lookup) ''75'' =
     Inr (\<lparr>p_md5 = None, p_id = Some 75, p_k = None\<rparr>, st, Inr body)"
  by (simp add: get_response_def ident_params_def endpoint_def example_env_def
        all_digits_def is_digit_def decimal_value_def)

lemma undecodable_get_response:
  "get_response (undecodable_env st) ''75'' =
     Inr (\<lparr>p_md5 = None, p_id = Some 75, p_k = None\<rparr>, st, Inl (Fault ''ContentTypeError''))"
  by (simp add: get_response_def ident_params_def endpoint_def undecodable_env_def
        example_env_def all_digits_def is_digit_def decimal_value_def)

lemma example_request_api_not_found:
  "request_api (example_env (Inr (404, JNull)) l) ''75'' w = (Inr None, w)"
  by (simp add: request_api_def example_send_request handle_response_def)

subsection \<open>The broker's steps\<close>

lemma upd_twice:
  "(B\<lparr>in_flight := (in_flight B)(key \<mapsto> a)\<rparr>)
      \<lparr>in_flight := (in_flight (B\<lparr>in_flight := (in_flight B)(key \<mapsto> a)\<rparr>))(key \<mapsto> c)\<rparr>
    = B\<lparr>in_flight := (in_flight B)(key \<mapsto> c)\<rparr>"
  by simp

lemma submit_in_flight:
  "in_flight B key = Some ws \<Longrightarrow>
     submit ival now session key B = B\<lparr>in_flight := (in_flight B)(key \<mapsto> insert session ws)\<rparr>"
  by (simp add: submit_def)

text \<open>While a key is in flight, submissions of it only grow its waiter set.\<close>

lemma submit_all_in_flight:
  "in_flight B key = Some ws \<Longrightarrow>
     submit_all ival key subs B = B\<lparr>in_flight := (in_flight B)(key \<mapsto> ws \<union> fst ` set subs)\<rparr>"
proof (induction subs arbitrary: B ws)
  case Nil
  then show ?case by (simp add: map_upd_triv)
next
  case (Cons sub subs)
  let ?B' = "B\<lparr>in_flight := (in_flight B)(key \<mapsto> insert (fst sub) ws)\<rparr>"
  have s: "submit ival (snd sub) (fst sub) key B = ?B'"
    using Cons.prems by (rule submit_in_flight)
  have f: "in_flight ?B' key = Some (insert (fst sub) ws)" by simp
  have e: "insert (fst sub) ws \<union> fst ` set subs = ws \<union> fst ` set (sub # subs)" by auto
  have "submit_all ival key (sub # subs) B = submit_all ival key subs ?B'"
    by (simp only: submit_all.simps s)
  also have "\<dots> = ?B'\<lparr>in_flight := (in_flight ?B')(key \<mapsto> insert (fst sub) ws \<union> fst ` set subs)\<rparr>"
    using f by (rule Cons.IH)
  also have "\<dots> = B\<lparr>in_flight := (in_flight B)(key \<mapsto> ws \<union> fst ` set (sub # subs))\<rparr>"
    unfolding e by (rule upd_twice)
  finally show ?case .
qed

lemma submit_admitted:
  "in_flight B key = None \<Longrightarrow> \<not> in_cooldown ival now key B \<Longrightarrow>
     submit ival now session key B =
       B\<lparr>in_flight := (in_flight B)(key \<mapsto> {session}),
         executions := executions B @ [(session, key)]\<rparr>"
  by (simp add: submit_def)

subsection \<open>The handler's loop\<close>

lemma submit_each_foldl:
  "submit_each new_operation session idents B =
     foldl (\<lambda>b ident. new_operation session ident b) B idents"
  by (induction idents arbitrary: B) simp_all

lemma submit_each_log:
  "submit_each log_new_operation session idents calls = calls @ map (NewOperation session) idents"
  by (induction idents arbitrary: calls) (simp_all add: log_new_operation_def)

lemma str_int_7: "str_int 7 = ''7''"
  by (simp add: str_int_def str_nat.simps digit_char_def)

section \<open>The broker: coalescing and throttling\<close>

text \<open>
  C1. A submission of \<open>key\<close> that is admitted (not in flight, not in cooldown), followed by
  any submissions \<open>subs\<close> of the same key by any sessions at any times while the key is in
  flight, starts exactly one execution of \<open>run\<close>: the execution log grows by the one
  entry of the admission and by nothing else, up to and including the completion. No
  message is delivered before the completion; at the completion every session that
  submitted (the admitted one and every later one, however often it submitted) gets
  exactly one message appended to its channel, the ResultMessage of that execution, the
  other sessions get none, and the key leaves the In-Flight Registry.
\<close>

theorem coalesced_submissions_one_execution:
  assumes "in_flight B key = None" and "\<not> in_cooldown ival now key B"
  shows "executions (submit_all ival key subs (submit ival now s0 key B))
           = executions B @ [(s0, key)]
       \<and> channels (submit_all ival key subs (submit ival now s0 key B)) = channels B
       \<and> executions (complete retain now' key outcome
                        (submit_all ival key subs (submit ival now s0 key B)))
           = executions B @ [(s0, key)]
       \<and> (\<forall>s. channels (complete retain now' key outcome
                          (submit_all ival key subs (submit ival now s0 key B))) s
              = channels B s @ (if s \<in> insert s0 (fst ` set subs)
                                then [result_message key outcome] else []))
       \<and> in_flight (complete retain now' key outcome
                        (submit_all ival key subs (submit ival now s0 key B))) key = None"
proof -
  let ?B1 = "submit ival now s0 key B"
  have B1: "?B1 = B\<lparr>in_flight := (in_flight B)(key \<mapsto> {s0}),
                    executions := executions B @ [(s0, key)]\<rparr>"
    using assms by (rule submit_admitted)
  have f1: "in_flight ?B1 key = Some {s0}" by (simp add: B1)
  have B2: "submit_all ival key subs ?B1
              = ?B1\<lparr>in_flight := (in_flight ?B1)(key \<mapsto> {s0} \<union> fst ` set subs)\<rparr>"
    using f1 by (rule submit_all_in_flight)
  show ?thesis
    unfolding B2 unfolding B1 by (simp add: complete_def Let_def)
qed

text \<open>
  The spec's scenario: interval 60; session A submits K1 at 0, session B at 1 (and A once
  more), the execution completes at 2. One execution, one message for A and for B, none
  for C.
\<close>

theorem coalesced_submissions_one_execution_witness:
  "in_flight empty_broker ''K1'' = None
   \<and> \<not> in_cooldown 60 0 ''K1'' empty_broker
   \<and> executions (complete True 2 ''K1'' (Inr \<lparr>identifier = ''K1'', status = ''success'', data = None\<rparr>)
        (submit_all 60 ''K1'' [(''B'', 1), (''A'', 1)] (submit 60 0 ''A'' ''K1'' empty_broker)))
       = [(''A'', ''K1'')]
   \<and> channels (complete True 2 ''K1'' (Inr \<lparr>identifier = ''K1'', status = ''success'', data = None\<rparr>)
        (submit_all 60 ''K1'' [(''B'', 1), (''A'', 1)] (submit 60 0 ''A'' ''K1'' empty_broker))) ''A''
       = [\<lparr>identifier = ''K1'', status = ''success'', data = None\<rparr>]
   \<and> channels (complete True 2 ''K1'' (Inr \<lparr>identifier = ''K1'', status = ''success'', data = None\<rparr>)
        (submit_all 60 ''K1'' [(''B'', 1), (''A'', 1)] (submit 60 0 ''A'' ''K1'' empty_broker))) ''B''
       = [\<lparr>identifier = ''K1'', status = ''success'', data = None\<rparr>]
   \<and> channels (complete True 2 ''K1'' (Inr \<lparr>identifier = ''K1'', status = ''success'', data = None\<rparr>)
        (submit_all 60 ''K1'' [(''B'', 1), (''A'', 1)] (submit 60 0 ''A'' ''K1'' empty_broker))) ''C''
       = []"
proof -
  have a: "in_flight empty_broker ''K1'' = None" by (simp add: empty_broker_def)
  have b: "\<not> in_cooldown 60 0 ''K1'' empty_broker"
    by (simp add: in_cooldown_def empty_broker_def)
  show ?thesis
    using coalesced_submissions_one_execution [OF a b,
        of "[(''B'', 1), (''A'', 1)]" "''A''" True 2
           "Inr \<lparr>identifier = ''K1'', status = ''success'', data = None\<rparr>"]
      a b
    by (simp add: result_message_def empty_broker_def)
qed

text \<open>
  C2. A submission of a key whose ThrottleEntry satisfies \<open>now - lastExecutedAt < interval\<close>
  starts no execution of \<open>run\<close> and leaves the ledger as it is. The channels of the other
  sessions do not change; the submitting session's channel gains at most one message, the
  one retained for the key, and only if the key is not in flight (if it is, the
  submission joins the waiters and nothing is enqueued).
\<close>

theorem cooldown_submission_skips:
  assumes "throttle B key = Some lastExecutedAt" and "now - lastExecutedAt < ival"
  shows "executions (submit ival now session key B) = executions B
       \<and> throttle (submit ival now session key B) = throttle B
       \<and> (\<forall>s. s \<noteq> session \<longrightarrow> channels (submit ival now session key B) s = channels B s)
       \<and> channels (submit ival now session key B) session
           = channels B session
             @ (case in_flight B key of
                  Some waiters \<Rightarrow> []
                | None \<Rightarrow> (case retained B key of None \<Rightarrow> [] | Some msg \<Rightarrow> [msg]))"
  using assms
  by (auto simp: submit_def in_cooldown_def publish_def split: option.splits)

text \<open>The scenario goes on: K1 completed at 2; session C submits it at 10.\<close>

theorem cooldown_submission_skips_witness:
  "throttle (empty_broker\<lparr>throttle := [''K1'' \<mapsto> 2],
                          retained := [''K1'' \<mapsto> failure_message ''K1'']\<rparr>) ''K1'' = Some 2
   \<and> (10::int) - 2 < 60
   \<and> executions (submit 60 10 ''C'' ''K1''
        (empty_broker\<lparr>throttle := [''K1'' \<mapsto> 2],
                      retained := [''K1'' \<mapsto> failure_message ''K1'']\<rparr>)) = []
   \<and> channels (submit 60 10 ''C'' ''K1''
        (empty_broker\<lparr>throttle := [''K1'' \<mapsto> 2],
                      retained := [''K1'' \<mapsto> failure_message ''K1'']\<rparr>)) ''C''
       = [failure_message ''K1'']"
proof -
  let ?B = "empty_broker\<lparr>throttle := [''K1'' \<mapsto> 2],
                         retained := [''K1'' \<mapsto> failure_message ''K1'']\<rparr>"
  have a: "throttle ?B ''K1'' = Some 2" by simp
  have b: "(10::int) - 2 < 60" by simp
  show ?thesis
    using cooldown_submission_skips [OF a b, of "''C''"] a
    by (simp add: empty_broker_def)
qed

text \<open>
  C3. No submission changes the Throttle Ledger, whether it is coalesced, skipped or
  admitted. A completion changes it only when an execution of the key is running, and
  then sets the key's \<open>lastExecutedAt\<close> to the completion time whatever the outcome, a
  failure of \<open>run\<close> included; so a submission of the key less than \<open>interval\<close> after a
  failed execution completed starts no execution.
\<close>

theorem throttle_updated_on_completion_only:
  "throttle (submit ival now session key B) = throttle B
   \<and> (in_flight B key = None \<longrightarrow> throttle (complete retain now key outcome B) = throttle B)
   \<and> (in_flight B key \<noteq> None \<longrightarrow>
        throttle (complete retain now key outcome B) = (throttle B)(key \<mapsto> now))
   \<and> (in_flight B key \<noteq> None \<and> now' - now < ival \<longrightarrow>
        executions (submit ival now' session' key (complete retain now key (Inl err) B))
          = executions B)"
  by (auto simp: submit_def complete_def in_cooldown_def publish_def Let_def split: option.splits)

text \<open>The spec's scenario: the execution of K2 fails at 0; K2 is submitted again at 1.\<close>

theorem throttle_updated_on_completion_only_witness:
  "in_flight (empty_broker\<lparr>in_flight := [''K2'' \<mapsto> {''A''}]\<rparr>) ''K2'' \<noteq> None
   \<and> (1::int) - 0 < 60
   \<and> throttle (complete False 0 ''K2'' (Inl (KeyError ''id''))
        (empty_broker\<lparr>in_flight := [''K2'' \<mapsto> {''A''}]\<rparr>)) ''K2'' = Some 0
   \<and> executions (submit 60 1 ''A'' ''K2'' (complete False 0 ''K2'' (Inl (KeyError ''id''))
        (empty_broker\<lparr>in_flight := [''K2'' \<mapsto> {''A''}]\<rparr>))) = []"
proof -
  let ?B = "empty_broker\<lparr>in_flight := [''K2'' \<mapsto> {''A''}]\<rparr>"
  have a: "in_flight ?B ''K2'' \<noteq> None" by simp
  have b: "(1::int) - 0 < 60" by simp
  show ?thesis
    using throttle_updated_on_completion_only
        [of 60 0 "''A''" "''K2''" ?B False "Inl (KeyError ''id'')" 1 "''A''" "KeyError ''id''"] a
    by (simp add: empty_broker_def)
qed

text \<open>
  C4. When the execution of \<open>operate\<close> for an in-flight key fails, either because an
  exception leaves \<open>operate\<close> or because neither the local store nor the remote provider
  has the beatmap, the broker's step still returns a state: every waiter's channel gains
  exactly one message, the Failure message for the key, through the same append as a
  success, and no other channel changes.
\<close>

theorem failure_is_delivered:
  assumes "in_flight B key = Some waiters"
    and "(\<exists>err. fst (operate E self session key w) = Inl err)
         \<or> (from_ident E (database_session w) key = Inr None
            \<and> fst (request_api E key (database_session w)) = Inr None)"
  shows "\<forall>s. channels (snd (snd (execute E retain now session key (self, w, B)))) s
           = channels B s @ (if s \<in> waiters then [failure_message key] else [])"
  using assms
  by (auto simp: execute_def complete_def result_message_def operate_def Let_def
        failure_message_def split: prod.splits sum.splits option.splits)

text \<open>Both ways of failing: the MD5 ident whose fetch raises, and a beatmap nobody has.\<close>

theorem failure_is_delivered_witness:
  "in_flight (empty_broker\<lparr>in_flight := [example_md5 \<mapsto> {''1'', ''2''}]\<rparr>) example_md5
     = Some {''1'', ''2''}
   \<and> fst (operate (example_env (Inr (200, JList [example_entry])) (\<lambda>w s. None))
            example_operator ''1'' example_md5 empty_world) = Inl (KeyError ''id'')
   \<and> channels (snd (snd (execute (example_env (Inr (200, JList [example_entry])) (\<lambda>w s. None))
        True 5 ''1'' example_md5
        (example_operator, empty_world,
         empty_broker\<lparr>in_flight := [example_md5 \<mapsto> {''1'', ''2''}]\<rparr>)))) ''2''
       = [failure_message example_md5]
   \<and> in_flight (empty_broker\<lparr>in_flight := [''75'' \<mapsto> {''1''}]\<rparr>) ''75'' = Some {''1''}
   \<and> from_ident (example_env (Inr (404, JNull)) (\<lambda>w s. None))
        (database_session empty_world) ''75'' = Inr None
   \<and> fst (request_api (example_env (Inr (404, JNull)) (\<lambda>w s. None)) ''75''
        (database_session empty_world)) = Inr None
   \<and> channels (snd (snd (execute (example_env (Inr (404, JNull)) (\<lambda>w s. None))
        True 5 ''1'' ''75''
        (example_operator, empty_world,
         empty_broker\<lparr>in_flight := [''75'' \<mapsto> {''1''}]\<rparr>)))) ''1''
       = [failure_message ''75'']"
proof -
  let ?B = "empty_broker\<lparr>in_flight := [example_md5 \<mapsto> {''1'', ''2''}]\<rparr>"
  let ?E = "example_env (Inr (200, JList [example_entry])) (\<lambda>w s. None)"
  let ?B' = "empty_broker\<lparr>in_flight := [''75'' \<mapsto> {''1''}]\<rparr>"
  let ?E' = "example_env (Inr (404, JNull)) (\<lambda>w s. None)"
  have a: "in_flight ?B example_md5 = Some {''1'', ''2''}" by simp
  have o: "fst (operate ?E example_operator ''1'' example_md5 empty_world) = Inl (KeyError ''id'')"
    by (simp add: example_operate_md5)
  then have b: "(\<exists>err. fst (operate ?E example_operator ''1'' example_md5 empty_world) = Inl err)
         \<or> (from_ident ?E (database_session empty_world) example_md5 = Inr None
            \<and> fst (request_api ?E example_md5 (database_session empty_world)) = Inr None)"
    by blast
  have a': "in_flight ?B' ''75'' = Some {''1''}" by simp
  have f': "from_ident ?E' (database_session empty_world) ''75'' = Inr None"
    by (simp add: example_env_def)
  have r': "fst (request_api ?E' ''75'' (database_session empty_world)) = Inr None"
    by (simp add: example_request_api_not_found)
  have b': "(\<exists>err. fst (operate ?E' example_operator ''1'' ''75'' empty_world) = Inl err)
         \<or> (from_ident ?E' (database_session empty_world) ''75'' = Inr None
            \<and> fst (request_api ?E' ''75'' (database_session empty_world)) = Inr None)"
    using f' r' by blast
  have c: "channels (snd (snd (execute ?E True 5 ''1'' example_md5
              (example_operator, empty_world, ?B)))) ''2'' = [failure_message example_md5]"
    using failure_is_delivered [OF a b, of True 5] by (simp add: empty_broker_def)
  have c': "channels (snd (snd (execute ?E' True 5 ''1'' ''75''
              (example_operator, empty_world, ?B')))) ''1'' = [failure_message ''75'']"
    using failure_is_delivered [OF a' b', of True 5] by (simp add: empty_broker_def)
  show ?thesis
    using a o c a' f' r' c' by simp
qed

section \<open>The operation body\<close>

text \<open>
  C5. The claim asks for a Success message whenever the remote provider has the beatmap.
  For an MD5 ident the code does not give one: with the beatmap missing locally and the
  provider answering 200 with the entry, the row is saved and then \<open>params['id']\<close> raises
  KeyError, which leaves \<open>request_api\<close> and \<open>operate\<close>; no message is returned.
\<close>

theorem operate_md5_miss_raises:
  "from_ident (example_env (Inr (200, JList [example_entry])) (\<lambda>w s. None))
       (database_session empty_world) example_md5 = Inr None
   \<and> fst (operate (example_env (Inr (200, JList [example_entry])) (\<lambda>w s. None))
            example_operator ''1'' example_md5 empty_world) = Inl (KeyError ''id'')
   \<and> beatmaps (snd (snd (operate (example_env (Inr (200, JList [example_entry])) (\<lambda>w s. None))
            example_operator ''1'' example_md5 empty_world))) = [example_beatmap]"
  by (simp add: example_operate_md5) (simp add: example_env_def)

text \<open>
  C6. After \<open>operate\<close>, \<open>skip_next_interval\<close> is True if the lookup in the local store
  found the beatmap, and has the value it had before otherwise: when the lookup raises,
  and when it finds nothing, whatever the remote request then does (a fetch, a failure or
  an exception). \<open>interval\<close> never changes.
\<close>

theorem operate_skip_next_interval:
  "skip_next_interval (fst (snd (operate E self session args w))) =
     (case from_ident E (database_session w) args of
        Inr (Some b) \<Rightarrow> True
      | _ \<Rightarrow> skip_next_interval self)
   \<and> interval (fst (snd (operate E self session args w))) = interval self"
  by (auto simp: operate_def Let_def split: prod.splits sum.splits option.splits)

theorem operate_skip_next_interval_witness:
  "skip_next_interval (fst (snd (operate (example_env (Inr (404, JNull)) (\<lambda>w s. Some example_beatmap))
        example_operator ''1'' ''75'' empty_world))) = True
   \<and> skip_next_interval (fst (snd (operate (example_env (Inr (404, JNull)) (\<lambda>w s. None))
        example_operator ''1'' ''75'' empty_world))) = False
   \<and> skip_next_interval (fst (snd (operate (example_env (Inr (200, JList [example_entry])) (\<lambda>w s. None))
        example_operator ''1'' ''75'' empty_world))) = False"
  using operate_skip_next_interval
      [of "example_env (Inr (404, JNull)) (\<lambda>w s. Some example_beatmap)" example_operator "''1''" "''75''" empty_world]
    operate_skip_next_interval
      [of "example_env (Inr (404, JNull)) (\<lambda>w s. None)" example_operator "''1''" "''75''" empty_world]
    operate_skip_next_interval
      [of "example_env (Inr (200, JList [example_entry])) (\<lambda>w s. None)" example_operator "''1''" "''75''" empty_world]
  by (simp add: example_env_def example_operator_def)

section \<open>The submission surface\<close>

text \<open>
  C7. \<open>stream_beatmap\<close> calls \<open>new_operation\<close> once for every ident of the list, in list
  order, each with the session \<open>str(user.id)\<close>, and then \<open>event_generator\<close> for the same
  session: on any operator state it is the fold of \<open>new_operation\<close> over the list followed
  by \<open>event_generator\<close>, and the calls it makes are exactly these, in this order.
\<close>

theorem stream_beatmap_calls:
  "stream_beatmap new_operation event_generator user idents B =
     event_generator (str_int (user_ident user))
       (foldl (\<lambda>b ident. new_operation (str_int (user_ident user)) ident b) B idents)
   \<and> stream_beatmap log_new_operation log_event_generator user idents calls =
       calls @ map (NewOperation (str_int (user_ident user))) idents
             @ [EventGenerator (str_int (user_ident user))]"
proof
  show "stream_beatmap new_operation event_generator user idents B =
     event_generator (str_int (user_ident user))
       (foldl (\<lambda>b ident. new_operation (str_int (user_ident user)) ident b) B idents)"
    by (simp add: stream_beatmap_def submit_each_foldl)
  show "stream_beatmap log_new_operation log_event_generator user idents calls =
       calls @ map (NewOperation (str_int (user_ident user))) idents
             @ [EventGenerator (str_int (user_ident user))]"
    by (simp add: stream_beatmap_def submit_each_log log_event_generator_def)
qed

theorem stream_beatmap_calls_witness:
  "stream_beatmap log_new_operation log_event_generator
       \<lparr>user_ident = 7, username = ''cookiezi''\<rparr> [''75'', example_md5] [] =
     [NewOperation ''7'' ''75'', NewOperation ''7'' example_md5, EventGenerator ''7'']"
  using stream_beatmap_calls
      [of log_new_operation log_event_generator "\<lparr>user_ident = 7, username = ''cookiezi''\<rparr>"
          "[''75'', example_md5]" "[]" "[]"]
  by (simp add: str_int_7 log_new_operation_def log_event_generator_def)

section \<open>Score submission\<close>

text \<open>
  C8. \<open>submit_raw\<close> hands the evaluator the condition and the mapping of \<open>acc\<close>,
  \<open>max_combo\<close>, \<open>mods\<close> and \<open>score\<close> to the score's accuracy, highest combo, mods and score.
  If the evaluator returns true, the score is added to the store and returned; if it
  returns false, the result is None and the store is unchanged (as it is when the
  evaluator raises). So the score is returned if and only if the evaluator returns true.
\<close>

theorem submit_raw_gate:
  "submit_raw E self session condition =
     (case AstChecker_check E condition
             [''acc'' \<mapsto> PyFloat (accuracy self), ''max_combo'' \<mapsto> PyInt (highest_combo self),
              ''mods'' \<mapsto> PyInt (mods self), ''score'' \<mapsto> PyInt (score self)] of
        Inr True \<Rightarrow> (Inr (Some self), session\<lparr>scores := scores session @ [self]\<rparr>)
      | Inr False \<Rightarrow> (Inr None, session)
      | Inl err \<Rightarrow> (Inl err, session))
   \<and> (fst (submit_raw E self session condition) = Inr (Some self)) =
       (AstChecker_check E condition
          [''acc'' \<mapsto> PyFloat (accuracy self), ''max_combo'' \<mapsto> PyInt (highest_combo self),
           ''mods'' \<mapsto> PyInt (mods self), ''score'' \<mapsto> PyInt (score self)] = Inr True)"
  by (auto simp: submit_raw_def variables_def add_model_score_def split: sum.splits)

theorem submit_raw_gate_witness:
  "submit_raw (example_env (Inr (404, JNull)) (\<lambda>w s. None)) example_score empty_world ''score''
     = (Inr (Some example_score), empty_world\<lparr>scores := [example_score]\<rparr>)
   \<and> submit_raw (example_env (Inr (404, JNull)) (\<lambda>w s. None)) example_score empty_world ''mods''
     = (Inr None, empty_world)"
  using submit_raw_gate [of "example_env (Inr (404, JNull)) (\<lambda>w s. None)" example_score empty_world "''score''"]
    submit_raw_gate [of "example_env (Inr (404, JNull)) (\<lambda>w s. None)" example_score empty_world "''mods''"]
  by (simp add: example_env_def example_check_def example_score_def empty_world_def)

section \<open>The remote lookup\<close>

text \<open>
  C9, as amended. For an ident that matches the MD5 pattern and is not numeric, when the
  remote provider answers with status 200 and a body that is true (not empty),
  \<open>request_api\<close> never returns: it raises the exception of \<open>_save_response\<close> if saving the
  body raises, and otherwise KeyError for \<open>params['id']\<close>. The lookup by MD5 at the end of
  the function is not reached.
\<close>

theorem request_api_md5_never_returns:
  assumes "MD5_PATTERN_match E ident" and "\<not> isnumeric E ident"
    and "send_request E ident = Inr (p, 200, body)" and "truthy body"
  shows "fst (request_api E ident w) =
           (case fst (save_response E (async_session_maker w) body) of
              Inl err \<Rightarrow> Inl err
            | Inr u \<Rightarrow> Inl (KeyError ''id''))
         \<and> (\<forall>r. fst (request_api E ident w) \<noteq> Inr r)"
  using assms send_request_not_numeric [OF assms(2,3)]
  by (auto simp: request_api_def handle_response_def Let_def split: prod.splits sum.splits)

theorem request_api_md5_never_returns_witness:
  "MD5_PATTERN_match (example_env (Inr (200, JList [example_entry])) (\<lambda>w s. None)) example_md5
   \<and> \<not> isnumeric (example_env (Inr (200, JList [example_entry])) (\<lambda>w s. None)) example_md5
   \<and> send_request (example_env (Inr (200, JList [example_entry])) (\<lambda>w s. None)) example_md5
       = Inr (\<lparr>p_md5 = Some example_md5, p_id = None, p_k = None\<rparr>, 200, JList [example_entry])
   \<and> truthy (JList [example_entry])
   \<and> fst (request_api (example_env (Inr (200, JList [example_entry])) (\<lambda>w s. None))
            example_md5 empty_world) = Inl (KeyError ''id'')"
proof -
  have t: "truthy (JList [example_entry])" by simp
  show ?thesis
    using request_api_md5_never_returns
        [OF example_md5_match example_md5_not_numeric example_send_request_md5 t,
         of "\<lambda>w s. None" empty_world]
      example_md5_match example_md5_not_numeric
    by (simp add: example_save_response example_send_request_md5)
qed

text \<open>
  The claim as it was stated fails when saving the body raises first: for the body
  \<open>[{}]\<close> the exception is KeyError for \<open>artist\<close>, raised by the format of the file name.
\<close>

theorem request_api_md5_malformed_body:
  "MD5_PATTERN_match (example_env (Inr (200, JList [JDict []])) (\<lambda>w s. None)) example_md5
   \<and> \<not> isnumeric (example_env (Inr (200, JList [JDict []])) (\<lambda>w s. None)) example_md5
   \<and> send_request (example_env (Inr (200, JList [JDict []])) (\<lambda>w s. None)) example_md5
       = Inr (\<lparr>p_md5 = Some example_md5, p_id = None, p_k = None\<rparr>, 200, JList [JDict []])
   \<and> truthy (JList [JDict []])
   \<and> fst (request_api (example_env (Inr (200, JList [JDict []])) (\<lambda>w s. None))
            example_md5 empty_world) = Inl (KeyError ''artist'')
   \<and> fst (request_api (example_env (Inr (200, JList [JDict []])) (\<lambda>w s. None))
            example_md5 empty_world) \<noteq> Inl (KeyError ''id'')"
proof -
  have r: "fst (request_api (example_env (Inr (200, JList [JDict []])) (\<lambda>w s. None))
                  example_md5 empty_world) = Inl (KeyError ''artist'')"
    by (simp add: request_api_def example_send_request_md5 handle_response_def
          save_response_def beatmap_of_entry_def format_filename_def getitem_def Let_def)
  show ?thesis
    using example_md5_match example_md5_not_numeric
    by (simp add: r example_send_request_md5)
qed

text \<open>
  C10, as amended. Whenever the response to the request for \<open>ident\<close> decodes
  (\<open>response.json()\<close> returns a body) and its status is not 200 or the decoded body is false
  (empty), \<open>request_api\<close> returns None and the store is exactly as before: no session was
  opened and no row was saved. When \<open>response.json()\<close> raises, its exception leaves
  \<open>request_api\<close>, whatever the status, and the store is as before too.
\<close>

theorem request_api_no_result_unchanged:
  assumes "get_response E ident = Inr (p, st, decoded)"
  shows "(\<forall>body. decoded = Inr body \<and> (st \<noteq> 200 \<or> \<not> truthy body)
            \<longrightarrow> request_api E ident w = (Inr None, w))
       \<and> (\<forall>err. decoded = Inl err \<longrightarrow> request_api E ident w = (Inl err, w))"
  using assms by (auto simp: request_api_def send_request_def handle_response_def)

theorem request_api_no_result_unchanged_witness:
  "get_response (example_env (Inr (404, JList [example_entry])) (\<lambda>w s. None)) ''75'' =
     Inr (\<lparr>p_md5 = None, p_id = Some 75, p_k = None\<rparr>, 404, Inr (JList [example_entry]))
   \<and> request_api (example_env (Inr (404, JList [example_entry])) (\<lambda>w s. None)) ''75'' empty_world
       = (Inr None, empty_world)
   \<and> get_response (example_env (Inr (200, JList [])) (\<lambda>w s. None)) ''75'' =
       Inr (\<lparr>p_md5 = None, p_id = Some 75, p_k = None\<rparr>, 200, Inr (JList []))
   \<and> request_api (example_env (Inr (200, JList [])) (\<lambda>w s. None)) ''75'' empty_world
       = (Inr None, empty_world)
   \<and> get_response (undecodable_env 200) ''75'' =
       Inr (\<lparr>p_md5 = None, p_id = Some 75, p_k = None\<rparr>, 200, Inl (Fault ''ContentTypeError''))
   \<and> request_api (undecodable_env 200) ''75'' empty_world
       = (Inl (Fault ''ContentTypeError''), empty_world)"
  using request_api_no_result_unchanged
      [OF example_get_response [of 404 "JList [example_entry]" "\<lambda>w s. None"],
       where w = empty_world]
    request_api_no_result_unchanged
      [OF example_get_response [of 200 "JList []" "\<lambda>w s. None"], where w = empty_world]
    request_api_no_result_unchanged
      [OF undecodable_get_response [of 200], where w = empty_world]
  by (simp add: example_get_response undecodable_get_response)

text \<open>
  The claim as it was stated fails when the body does not decode: the provider answers
  with status 404 and a body that is not JSON, and \<open>request_api\<close> raises the decoder's
  exception instead of returning None.
\<close>

theorem request_api_not_200_undecodable:
  "get_response (undecodable_env 404) ''75'' =
     Inr (\<lparr>p_md5 = None, p_id = Some 75, p_k = None\<rparr>, 404, Inl (Fault ''ContentTypeError''))
   \<and> (404 :: int) \<noteq> 200
   \<and> request_api (undecodable_env 404) ''75'' empty_world
       = (Inl (Fault ''ContentTypeError''), empty_world)
   \<and> fst (request_api (undecodable_env 404) ''75'' empty_world) \<noteq> Inr None"
  by (simp add: undecodable_get_response request_api_def send_request_def)

end
